theory Spec2Isabelle
  imports Main "HOL-Library.Word" "HOL-Library.Signed_Division"
begin

unbundle bit_operations_syntax

section \<open>Go values used by package token\<close>

text \<open>Go's \<open>int64\<close> is a 64-bit two's complement word; \<open>[]byte\<close> and \<open>string\<close> are
  byte sequences.\<close>

type_synonym int64 = "64 word"
type_synonym bytes = "char list"

text \<open>Go's \<open>/\<close> on \<open>int64\<close>: the quotient truncated towards zero, wrapped to 64 bits.
  (A zero divisor panics in Go; the only divisor in this package is a non-zero constant.)\<close>

definition int64_quo :: "int64 \<Rightarrow> int64 \<Rightarrow> int64" where
  "int64_quo a b = word_of_int (sint a sdiv sint b)"

text \<open>\<open>int64(time.Millisecond)\<close>: a millisecond in nanoseconds.\<close>

definition Millisecond :: int64 where
  "Millisecond = 1000000"

text \<open>Modelled from the spec: the declaration of \<open>AuthToken\<close> is not part of the source
  file. The spec gives a token a mandatory \<open>expiration\<close> (integer milliseconds since the
  epoch, compared with an \<open>int64\<close> in \<open>TokenExpired\<close>) and opaque additional claim fields
  transported verbatim.\<close>

record AuthToken =
  Expiration :: int64
  Claims :: "(string \<times> string) list"

section \<open>Expiration policy\<close>

text \<open>\<open>TokenExpired\<close> (verifier.go, lines 72-79). The reading of the clock,
  \<open>time.Now().UnixNano()\<close>, is the argument \<open>unixNano\<close>.\<close>

definition nowMillis :: "int64 \<Rightarrow> int64" where
  "nowMillis unixNano = int64_quo unixNano Millisecond"

definition TokenExpired :: "AuthToken \<Rightarrow> int64 \<Rightarrow> bool" where
  "TokenExpired token unixNano =
     (if Expiration token <s nowMillis unixNano then True else False)"

section \<open>Values of the libraries the package calls\<close>

text \<open>A Go \<open>error\<close> value. \<open>External\<close> is an error returned by a call into another
  package (\<open>ioutil\<close>, \<open>jose\<close>, \<open>json\<close>, \<open>proto\<close>, \<open>x509\<close>, \<open>ecdsa\<close>), with its message;
  \<open>Errorf\<close> is an error this package builds with \<open>fmt.Errorf\<close>.\<close>

datatype error = External string | Errorf string


text \<open>\<open>ecdsa.PublicKey\<close> and \<open>ecdsa.PrivateKey\<close>; the private key embeds the public
  one, as in Go. \<open>Curve\<close> holds the name of the curve, \<open>Params().Name\<close>.\<close>

record ecdsa_PublicKey =
  Curve :: string
  X :: int
  Y :: int

record ecdsa_PrivateKey = ecdsa_PublicKey +
  D :: int

definition Params_Name :: "'a ecdsa_PublicKey_scheme \<Rightarrow> string" where
  "Params_Name k = Curve k"

text \<open>The \<open>interface{}\<close> values that \<open>jose.LoadPublicKey\<close> and \<open>jose.LoadPrivateKey\<close>
  return: an ECDSA key, or a key of another Go type, of which only the type name (what
  \<open>%T\<close> prints) matters here.\<close>

datatype PublicKey = EcdsaPublicKey ecdsa_PublicKey | OtherPublicKey string

datatype PrivateKey = EcdsaPrivateKey ecdsa_PrivateKey | OtherPrivateKey string

type_synonym SignatureAlgorithm = string

text \<open>A parsed JWS object: the algorithm its header declares, the payload, the
  signature. The package never looks inside one.\<close>

record JsonWebSignature =
  protected_alg :: SignatureAlgorithm
  jws_payload :: bytes
  jws_signature :: bytes

text \<open>A \<open>jose.Signer\<close>: what \<open>jose.NewSigner\<close> was given.\<close>

datatype Signer = Signer SignatureAlgorithm PrivateKey

text \<open>\<open>os.FileMode\<close> is a \<open>uint32\<close>.\<close>

type_synonym FileMode = "32 word"

text \<open>Modelled from the spec: the declaration of \<open>pb.Token\<close> (package
  \<open>token/proto\<close>) is not part of the source file. The spec has one Token entity, so
  \<open>pb.Token\<close> carries the fields of \<open>AuthToken\<close>.\<close>

type_synonym pb_Token = AuthToken

definition AuthToken_zero :: AuthToken where
  "AuthToken_zero = \<lparr>Expiration = 0, Claims = []\<rparr>"

text \<open>The functions of other packages that the package calls, as parameters of the
  model. A call that returns \<open>(value, error)\<close> is a sum; \<open>Unmarshal\<close> writes into the
  token it is given and returns an error, so it returns the token written and the error;
  \<open>WriteFile\<close> returns an error and changes the file system. Signing and key generation
  draw on \<open>rand.Reader\<close>: the \<open>nat\<close> argument is what they draw.\<close>

record 'fs extern =
  ReadFile :: "string \<Rightarrow> 'fs \<Rightarrow> error + bytes"
  WriteFile :: "string \<Rightarrow> bytes \<Rightarrow> FileMode \<Rightarrow> 'fs \<Rightarrow> error option \<times> 'fs"
  LoadPublicKey :: "bytes \<Rightarrow> error + PublicKey"
  LoadPrivateKey :: "bytes \<Rightarrow> error + PrivateKey"
  NewSigner :: "SignatureAlgorithm \<Rightarrow> PrivateKey \<Rightarrow> error + Signer"
  Sign :: "Signer \<Rightarrow> nat \<Rightarrow> bytes \<Rightarrow> error + JsonWebSignature"
  CompactSerialize :: "JsonWebSignature \<Rightarrow> error + string"
  ParseSigned :: "string \<Rightarrow> error + JsonWebSignature"
  JwsVerify :: "JsonWebSignature \<Rightarrow> ecdsa_PublicKey \<Rightarrow> error + bytes"
  json_Unmarshal :: "bytes \<Rightarrow> AuthToken \<Rightarrow> AuthToken \<times> error option"
  proto_Marshal :: "pb_Token \<Rightarrow> error + bytes"
  proto_Unmarshal :: "bytes \<Rightarrow> pb_Token \<Rightarrow> pb_Token \<times> error option"
  GenerateKey :: "string \<Rightarrow> nat \<Rightarrow> error + ecdsa_PrivateKey"
  MarshalECPrivateKey :: "ecdsa_PrivateKey \<Rightarrow> error + bytes"
  MarshalPKIXPublicKey :: "ecdsa_PublicKey \<Rightarrow> error + bytes"

section \<open>The JSON verifier (verifier.go, lines 1-79)\<close>

record ecdsaVerifier =
  publicKey :: ecdsa_PublicKey

text \<open>\<open>NewVerifier\<close> (lines 26-44). \<open>getPublicKeyFilename\<close> is defined elsewhere in
  the package and is an argument here.\<close>

definition NewVerifier_ecdsa ::
  "'fs extern \<Rightarrow> (string \<Rightarrow> string) \<Rightarrow> string \<Rightarrow> 'fs \<Rightarrow> ecdsaVerifier option \<times> error option" where
  "NewVerifier_ecdsa ext getPublicKeyFilename dirname fs =
     (let publicKeyFile = getPublicKeyFilename dirname in
      case ReadFile ext publicKeyFile fs of
        Inl err \<Rightarrow> (None, Some err)
      | Inr buf \<Rightarrow>
          (case LoadPublicKey ext buf of
             Inl err \<Rightarrow> (None, Some err)
           | Inr pubKey \<Rightarrow>
               (case pubKey of
                  OtherPublicKey ty \<Rightarrow>
                    (None, Some (Errorf
                       (''Expected the public key to use ECDSA, but got a key of type '' @ ty)))
                | EcdsaPublicKey ecdsaPubKey \<Rightarrow>
                    (let v = \<lparr>publicKey = ecdsaPubKey\<rparr> in (Some v, None)))))"

text \<open>\<open>ecdsaVerifier.Verify\<close> (lines 48-68), with the named results \<open>(token, err)\<close>
  as a pair of options (\<open>None\<close> is \<open>nil\<close>).\<close>

definition ecdsaVerifier_Verify ::
  "'fs extern \<Rightarrow> ecdsaVerifier \<Rightarrow> int64 \<Rightarrow> string \<Rightarrow> AuthToken option \<times> error option" where
  "ecdsaVerifier_Verify ext ev unixNano s =
     (case ParseSigned ext s of
        Inl err \<Rightarrow> (None, Some err)
      | Inr jws \<Rightarrow>
          (case JwsVerify ext jws (publicKey ev) of
             Inl err \<Rightarrow> (None, Some err)
           | Inr payload \<Rightarrow>
               (case json_Unmarshal ext payload AuthToken_zero of
                  (token, err) \<Rightarrow>
                    if err \<noteq> None then (None, err)
                    else if TokenExpired token unixNano
                      then (None, Some (Errorf ''token has expired''))
                    else (Some token, err))))"

section \<open>The protobuf issuer and verifier (verifier.go, lines 81-256)\<close>

record Verifier =
  publicKey :: ecdsa_PublicKey

record Issuer = Verifier +
  signer :: Signer
  LogTokenIssued :: "(bytes \<Rightarrow> pb_Token \<Rightarrow> error option) option"

definition curveName :: string where
  "curveName = ''P-256''"

definition ES256 :: SignatureAlgorithm where
  "ES256 = ''ES256''"

definition curveJose :: SignatureAlgorithm where
  "curveJose = ES256"


text \<open>\<open>os.FileMode(0600)\<close> and \<open>os.FileMode(0644)\<close>; the Go literals are octal.\<close>

definition FileMode_0600 :: FileMode where
  "FileMode_0600 = 384"

definition FileMode_0644 :: FileMode where
  "FileMode_0644 = 420"


text \<open>\<open>NewIssuer\<close> (lines 148-183). \<open>err\<close> is the named result: the curve check assigns
  it and goes on, and the call of \<open>jose.NewSigner\<close> assigns it again.\<close>

definition NewIssuer :: "'fs extern \<Rightarrow> string \<Rightarrow> 'fs \<Rightarrow> Issuer option \<times> error option" where
  "NewIssuer ext filename fs =
     (case ReadFile ext (filename @ ''.priv'') fs of
        Inl err \<Rightarrow> (None, Some err)
      | Inr key \<Rightarrow>
          (case LoadPrivateKey ext key of
             Inl err \<Rightarrow> (None, Some err)
           | Inr privateKey \<Rightarrow>
               (case privateKey of
                  OtherPrivateKey ty \<Rightarrow>
                    (None, Some (Errorf
                       (''expected an ECDSA private key, but got a key of type '' @ ty)))
                | EcdsaPrivateKey ecdsaKey \<Rightarrow>
                    (let err = (if Params_Name ecdsaKey \<noteq> curveName
                                then Some (Errorf (''expected the key to use '' @ curveName @
                                       '', but it's using '' @ Params_Name ecdsaKey))
                                else None);
                         signer_err = NewSigner ext curveJose privateKey;
                         err = (case signer_err of Inl e \<Rightarrow> Some e | Inr sg \<Rightarrow> None)
                     in case signer_err of
                          Inl e \<Rightarrow> (None, err)
                        | Inr sg \<Rightarrow>
                            (Some \<lparr>publicKey = ecdsa_PublicKey.truncate ecdsaKey,
                                   signer = sg, LogTokenIssued = None\<rparr>, err)))))"

text \<open>\<open>Issuer.Issue\<close> (lines 187-215). The call of \<open>LogTokenIssued\<close> is inside a
  comment in the source, so the body ends after \<open>CompactSerialize\<close>.\<close>

definition Issue :: "'fs extern \<Rightarrow> Issuer \<Rightarrow> nat \<Rightarrow> pb_Token \<Rightarrow> string \<times> error option" where
  "Issue ext iss rnd token =
     (case proto_Marshal ext token of
        Inl err \<Rightarrow> ([], Some err)
      | Inr tokenBytes \<Rightarrow>
          (case Sign ext (signer iss) rnd tokenBytes of
             Inl err \<Rightarrow> ([], Some err)
           | Inr jws \<Rightarrow>
               (case CompactSerialize ext jws of
                  Inl err \<Rightarrow> ([], Some err)
                | Inr signed_jws \<Rightarrow> (signed_jws, None))))"

text \<open>\<open>NewVerifier\<close> (lines 219-236).\<close>

definition NewVerifier :: "'fs extern \<Rightarrow> string \<Rightarrow> 'fs \<Rightarrow> Verifier option \<times> error option" where
  "NewVerifier ext basename fs =
     (case ReadFile ext (basename @ ''.pub'') fs of
        Inl err \<Rightarrow> (None, Some err)
      | Inr buf \<Rightarrow>
          (case LoadPublicKey ext buf of
             Inl err \<Rightarrow> (None, Some err)
           | Inr pubKey \<Rightarrow>
               (case pubKey of
                  OtherPublicKey ty \<Rightarrow>
                    (None, Some (Errorf
                       (''Expected the public key to use ECDSA, but got a key of type '' @ ty)))
                | EcdsaPublicKey ecdsaPubKey \<Rightarrow>
                    (let v = \<lparr>publicKey = ecdsaPubKey\<rparr> in (Some v, None)))))"

text \<open>\<open>Verifier.Verify\<close> (lines 240-256). An \<open>Issuer\<close> embeds a \<open>Verifier\<close>, so the
  receiver is any extension of the record.\<close>

definition Verifier_Verify ::
  "'fs extern \<Rightarrow> 'a Verifier_scheme \<Rightarrow> string \<Rightarrow> pb_Token option \<times> error option" where
  "Verifier_Verify ext v s =
     (case ParseSigned ext s of
        Inl err \<Rightarrow> (None, Some err)
      | Inr jws \<Rightarrow>
          (case JwsVerify ext jws (Verifier.publicKey v) of
             Inl err \<Rightarrow> (None, Some err)
           | Inr payload \<Rightarrow>
               (case proto_Unmarshal ext payload AuthToken_zero of
                  (token, err) \<Rightarrow>
                    if err \<noteq> None then (None, err) else (Some token, err))))"

section \<open>Contracts of the libraries\<close>

text \<open>A valid token: \<open>proto.Marshal\<close> encodes it, and \<open>proto.Unmarshal\<close> of the bytes
  into a fresh token gives it back with no error.\<close>

definition valid_token :: "'fs extern \<Rightarrow> pb_Token \<Rightarrow> bool" where
  "valid_token ext t =
     (case proto_Marshal ext t of
        Inl err \<Rightarrow> False
      | Inr b \<Rightarrow> proto_Unmarshal ext b AuthToken_zero = (t, None))"

text \<open>A public key matches a signer: whatever the signer signs and serializes parses
  back, and verifies under the key to the payload signed.\<close>

definition matching_public_key :: "'fs extern \<Rightarrow> Signer \<Rightarrow> ecdsa_PublicKey \<Rightarrow> bool" where
  "matching_public_key ext sg pub =
     (\<forall>rnd b jws s. Sign ext sg rnd b = Inr jws \<longrightarrow> CompactSerialize ext jws = Inr s \<longrightarrow>
        (\<exists>jws'. ParseSigned ext s = Inr jws' \<and> JwsVerify ext jws' pub = Inr b))"

section \<open>An example environment\<close>

text \<open>A small instance of the library functions, on which the functions of the package
  are run: files are a map from names to mode and content, \<open>WriteFile\<close> creates a
  missing file with the mode it is given and keeps the mode of an existing one, keys are
  read from a few fixed file contents, and a signed object is written as one character for
  the algorithm, one for the key that signed, and the payload.\<close>

type_synonym ex_fs = "string \<Rightarrow> (FileMode \<times> bytes) option"

definition ex_ReadFile :: "string \<Rightarrow> ex_fs \<Rightarrow> error + bytes" where
  "ex_ReadFile name fs =
     (case fs name of
        None \<Rightarrow> Inl (External ''no such file or directory'')
      | Some (m, d) \<Rightarrow> Inr d)"

definition ex_WriteFile :: "string \<Rightarrow> bytes \<Rightarrow> FileMode \<Rightarrow> ex_fs \<Rightarrow> error option \<times> ex_fs" where
  "ex_WriteFile name d perm fs =
     (case fs name of
        None \<Rightarrow> (None, fs(name \<mapsto> (perm, d)))
      | Some (m, old) \<Rightarrow> (None, fs(name \<mapsto> (m, d))))"

definition ex_key :: "string \<Rightarrow> int \<Rightarrow> ecdsa_PrivateKey" where
  "ex_key c n = \<lparr>Curve = c, X = n, Y = n + 1, D = n + 3\<rparr>"

definition ex_LoadPublicKey :: "bytes \<Rightarrow> error + PublicKey" where
  "ex_LoadPublicKey buf =
     (if buf = ''pub P-256 4'' then Inr (EcdsaPublicKey (ecdsa_PublicKey.truncate (ex_key ''P-256'' 4)))
      else if buf = ''pub P-384 6'' then Inr (EcdsaPublicKey (ecdsa_PublicKey.truncate (ex_key ''P-384'' 6)))
      else if buf = ''pub RSA'' then Inr (OtherPublicKey ''*rsa.PublicKey'')
      else Inl (External ''square/go-jose: parse error, got bad key''))"

definition ex_LoadPrivateKey :: "bytes \<Rightarrow> error + PrivateKey" where
  "ex_LoadPrivateKey buf =
     (if buf = ''priv P-256 4'' then Inr (EcdsaPrivateKey (ex_key ''P-256'' 4))
      else if buf = ''priv P-384 6'' then Inr (EcdsaPrivateKey (ex_key ''P-384'' 6))
      else if buf = ''priv RSA'' then Inr (OtherPrivateKey ''*rsa.PrivateKey'')
      else Inl (External ''square/go-jose: parse error, got bad key''))"

definition ex_NewSigner :: "SignatureAlgorithm \<Rightarrow> PrivateKey \<Rightarrow> error + Signer" where
  "ex_NewSigner alg key =
     (case key of
        EcdsaPrivateKey k \<Rightarrow>
          if alg = ''ES256'' \<or> alg = ''ES384'' \<or> alg = ''ES512'' then Inr (Signer alg key)
          else Inl (External ''square/go-jose: unknown/unsupported algorithm'')
      | OtherPrivateKey ty \<Rightarrow> Inl (External ''square/go-jose: unsupported key type''))"

definition ex_mark :: "ecdsa_PublicKey \<Rightarrow> char" where
  "ex_mark k = (if X k = 4 then CHR ''a'' else CHR ''b'')"

definition ex_Sign :: "Signer \<Rightarrow> nat \<Rightarrow> bytes \<Rightarrow> error + JsonWebSignature" where
  "ex_Sign sg rnd b =
     (case sg of Signer alg key \<Rightarrow>
        (case key of
           EcdsaPrivateKey k \<Rightarrow>
             if (alg = ''ES256'' \<and> Curve k = ''P-256'') \<or> (alg = ''ES384'' \<and> Curve k = ''P-384'')
             then Inr \<lparr>protected_alg = alg, jws_payload = b,
                       jws_signature = [ex_mark (ecdsa_PublicKey.truncate k)]\<rparr>
             else Inl (External ''square/go-jose: key size does not match the algorithm'')
         | OtherPrivateKey ty \<Rightarrow> Inl (External ''square/go-jose: unsupported key type'')))"

definition ex_CompactSerialize :: "JsonWebSignature \<Rightarrow> error + string" where
  "ex_CompactSerialize jws =
     (if protected_alg jws = ''ES256''
      then Inr (CHR ''2'' # jws_signature jws @ jws_payload jws)
      else if protected_alg jws = ''ES384''
      then Inr (CHR ''3'' # jws_signature jws @ jws_payload jws)
      else Inl (External ''square/go-jose: unknown/unsupported algorithm''))"

definition ex_ParseSigned :: "string \<Rightarrow> error + JsonWebSignature" where
  "ex_ParseSigned s =
     (case s of
        a # c # p \<Rightarrow>
          if a = CHR ''2''
          then Inr \<lparr>protected_alg = ''ES256'', jws_payload = p, jws_signature = [c]\<rparr>
          else if a = CHR ''3''
          then Inr \<lparr>protected_alg = ''ES384'', jws_payload = p, jws_signature = [c]\<rparr>
          else Inl (External ''square/go-jose: compact JWS format must have three parts'')
      | _ \<Rightarrow> Inl (External ''square/go-jose: compact JWS format must have three parts''))"

definition ex_JwsVerify :: "JsonWebSignature \<Rightarrow> ecdsa_PublicKey \<Rightarrow> error + bytes" where
  "ex_JwsVerify jws pub =
     (if ((protected_alg jws = ''ES256'' \<and> Curve pub = ''P-256'')
          \<or> (protected_alg jws = ''ES384'' \<and> Curve pub = ''P-384''))
         \<and> jws_signature jws = [ex_mark pub]
      then Inr (jws_payload jws)
      else Inl (External ''square/go-jose: error in cryptographic primitive''))"

definition ex_Marshal :: "AuthToken \<Rightarrow> error + bytes" where
  "ex_Marshal t =
     (if t = \<lparr>Expiration = 1500, Claims = []\<rparr> then Inr ''exp 1500''
      else if t = \<lparr>Expiration = 1499, Claims = []\<rparr> then Inr ''exp 1499''
      else Inl (External ''cannot encode''))"

definition ex_Unmarshal :: "bytes \<Rightarrow> AuthToken \<Rightarrow> AuthToken \<times> error option" where
  "ex_Unmarshal b t =
     (if b = ''exp 1500'' then (t\<lparr>Expiration := 1500\<rparr>, None)
      else if b = ''exp 1499'' then (t\<lparr>Expiration := 1499\<rparr>, None)
      else (t, Some (External ''cannot decode'')))"

definition ex_GenerateKey :: "string \<Rightarrow> nat \<Rightarrow> error + ecdsa_PrivateKey" where
  "ex_GenerateKey c rnd =
     (if rnd = 0 then Inl (External ''unexpected EOF'') else Inr (ex_key c (int rnd)))"

definition ex_MarshalECPrivateKey :: "ecdsa_PrivateKey \<Rightarrow> error + bytes" where
  "ex_MarshalECPrivateKey k =
     (if k = ex_key ''P-256'' 4 then Inr ''priv P-256 4''
      else if k = ex_key ''P-384'' 6 then Inr ''priv P-384 6''
      else Inl (External ''x509: unknown elliptic curve''))"

definition ex_MarshalPKIXPublicKey :: "ecdsa_PublicKey \<Rightarrow> error + bytes" where
  "ex_MarshalPKIXPublicKey k =
     (if k = ecdsa_PublicKey.truncate (ex_key ''P-256'' 4) then Inr ''pub P-256 4''
      else if k = ecdsa_PublicKey.truncate (ex_key ''P-384'' 6) then Inr ''pub P-384 6''
      else Inl (External ''x509: unsupported elliptic curve''))"

definition ex_extern :: "ex_fs extern" where
  "ex_extern =
     \<lparr>ReadFile = ex_ReadFile, WriteFile = ex_WriteFile,
      LoadPublicKey = ex_LoadPublicKey, LoadPrivateKey = ex_LoadPrivateKey,
      NewSigner = ex_NewSigner, Sign = ex_Sign, CompactSerialize = ex_CompactSerialize,
      ParseSigned = ex_ParseSigned, JwsVerify = ex_JwsVerify,
      json_Unmarshal = ex_Unmarshal, proto_Marshal = ex_Marshal,
      proto_Unmarshal = ex_Unmarshal, GenerateKey = ex_GenerateKey,
      MarshalECPrivateKey = ex_MarshalECPrivateKey,
      MarshalPKIXPublicKey = ex_MarshalPKIXPublicKey\<rparr>"

text \<open>The key files of the example: a P-256 pair, a P-384 pair and an RSA pair.\<close>

definition ex_files :: ex_fs where
  "ex_files =
     [''a.priv'' \<mapsto> (FileMode_0600, ''priv P-256 4''), ''a.pub'' \<mapsto> (FileMode_0644, ''pub P-256 4''),
      ''b.priv'' \<mapsto> (FileMode_0600, ''priv P-384 6''), ''b.pub'' \<mapsto> (FileMode_0644, ''pub P-384 6''),
      ''r.priv'' \<mapsto> (FileMode_0600, ''priv RSA''), ''r.pub'' \<mapsto> (FileMode_0644, ''pub RSA'')]"

definition ex_getPublicKeyFilename :: "string \<Rightarrow> string" where
  "ex_getPublicKeyFilename dirname = dirname @ ''.pub''"

text \<open>The issuer and the verifier of the P-256 pair, and an issuer whose observer
  always reports a failure.\<close>

definition ex_issuer :: Issuer where
  "ex_issuer =
     \<lparr>publicKey = ecdsa_PublicKey.truncate (ex_key ''P-256'' 4),
      signer = Signer ''ES256'' (EcdsaPrivateKey (ex_key ''P-256'' 4)),
      LogTokenIssued = None\<rparr>"

definition ex_verifier :: Verifier where
  "ex_verifier = \<lparr>publicKey = ecdsa_PublicKey.truncate (ex_key ''P-256'' 4)\<rparr>"

definition ex_ecdsaVerifier :: ecdsaVerifier where
  "ex_ecdsaVerifier = \<lparr>ecdsaVerifier.publicKey = ecdsa_PublicKey.truncate (ex_key ''P-256'' 4)\<rparr>"

definition ex_failing_observer :: "bytes \<Rightarrow> pb_Token \<Rightarrow> error option" where
  "ex_failing_observer signedToken unsignedToken = Some (External ''audit log unavailable'')"

definition ex_token :: AuthToken where
  "ex_token = \<lparr>Expiration = 1500, Claims = []\<rparr>"


section \<open>Evaluation of the example environment\<close>

lemmas ex_defs = ex_extern_def ex_ReadFile_def ex_WriteFile_def ex_LoadPublicKey_def ex_LoadPrivateKey_def
  ex_NewSigner_def ex_Sign_def ex_CompactSerialize_def ex_ParseSigned_def ex_JwsVerify_def ex_Marshal_def
  ex_Unmarshal_def ex_GenerateKey_def ex_MarshalECPrivateKey_def ex_MarshalPKIXPublicKey_def ex_files_def
  ex_getPublicKeyFilename_def ex_issuer_def ex_verifier_def ex_failing_observer_def ex_token_def ex_key_def ex_mark_def
  ecdsa_PublicKey.truncate_def AuthToken_zero_def ex_ecdsaVerifier_def

lemma ex_valid_token: "valid_token ex_extern ex_token"
  by (simp add: valid_token_def ex_defs)

lemma ex_matching_public_key:
  "matching_public_key ex_extern (signer ex_issuer) (Verifier.publicKey ex_verifier)"
  by (auto simp add: matching_public_key_def ex_defs split: list.splits if_splits)

lemma ex_Issue: "Issue ex_extern ex_issuer 0 ex_token = (''2aexp 1500'', None)"
  by (simp add: Issue_def ex_defs)

lemma ex_Verifier_Verify:
  "Verifier_Verify ex_extern ex_verifier ''2aexp 1500'' = (Some ex_token, None)"
  by (simp add: Verifier_Verify_def ex_defs)

section \<open>The clock in milliseconds\<close>

text \<open>The quotient of a 64-bit value by a million stays far inside the 64-bit range, so
  the division in \<open>nowMillis\<close> never wraps, and neither does subtracting one from its result.\<close>

lemma sdiv_million_bounds:
  fixes k :: int
  assumes "- (2 ^ 63) \<le> k" "k < 2 ^ 63"
  shows "- 9223372036855 \<le> k sdiv 1000000" "k sdiv 1000000 \<le> 9223372036854"
proof -
  show "- 9223372036855 \<le> k sdiv 1000000"
  proof (cases "0 \<le> k")
    case True
    then have "k sdiv 1000000 = k div 1000000" by (simp add: signed_divide_int_def sgn_if)
    moreover have "0 \<le> k div 1000000" using True by simp
    ultimately show ?thesis by simp
  next
    case False
    then have "k sdiv 1000000 = - ((- k) div 1000000)" by (simp add: signed_divide_int_def sgn_if)
    moreover have "(- k) div 1000000 \<le> 9223372036854" using assms False by simp
    ultimately show ?thesis by simp
  qed
  show "k sdiv 1000000 \<le> 9223372036854"
  proof (cases "0 \<le> k")
    case True
    then have "k sdiv 1000000 = k div 1000000" by (simp add: signed_divide_int_def sgn_if)
    moreover have "k div 1000000 \<le> 9223372036854" using assms True by simp
    ultimately show ?thesis by simp
  next
    case False
    then have "k sdiv 1000000 = - ((- k) div 1000000)" by (simp add: signed_divide_int_def sgn_if)
    moreover have "0 \<le> (- k) div 1000000" using False by simp
    ultimately show ?thesis by simp
  qed
qed

lemma sint_nowMillis: "sint (nowMillis n) = sint n sdiv 1000000"
proof -
  have lo: "- (2 ^ 63) \<le> sint n" using sint_ge [of n] by simp
  have hi: "sint n < 2 ^ 63" using sint_lt [of n] by simp
  note b = sdiv_million_bounds [OF lo hi]
  have "signed_take_bit 63 (sint n sdiv 1000000) = sint n sdiv 1000000"
    using b by (intro signed_take_bit_int_eq_self) simp_all
  then show ?thesis
    by (simp add: nowMillis_def int64_quo_def Millisecond_def sint_sbintrunc')
qed

lemma sint_nowMillis_minus_1: "sint (nowMillis n - 1) = sint n sdiv 1000000 - 1"
proof -
  have lo: "- (2 ^ 63) \<le> sint n" using sint_ge [of n] by simp
  have hi: "sint n < 2 ^ 63" using sint_lt [of n] by simp
  note b = sdiv_million_bounds [OF lo hi]
  have "sint (nowMillis n - 1) = signed_take_bit 63 (sint (nowMillis n) - 1)"
    by (simp add: sint_word_ariths)
  also have "\<dots> = sint n sdiv 1000000 - 1"
    unfolding sint_nowMillis using b by (intro signed_take_bit_int_eq_self) simp_all
  finally show ?thesis .
qed

lemma ex_TokenExpired_1500: "\<not> TokenExpired ex_token 1500000000"
  by (simp add: TokenExpired_def word_sless_alt sint_nowMillis signed_divide_int_def ex_token_def)

lemma ex_TokenExpired_1501: "TokenExpired ex_token 1501000000"
  by (simp add: TokenExpired_def word_sless_alt sint_nowMillis signed_divide_int_def ex_token_def)

section \<open>Issue and Verify\<close>

text \<open>Claim C1 (round trip). For a valid token \<open>t\<close> and a verifier that holds the public
  key matching the issuer's signer, verifying the wire string that \<open>Issue\<close> returned for
  \<open>t\<close> succeeds and returns \<open>t\<close> itself, with every field. \<open>Verifier.Verify\<close> looks at
  no clock, so this holds whatever the expiration of \<open>t\<close> is, in particular when it
  lies after the current time.\<close>

theorem Issue_Verify_round_trip:
  assumes "valid_token ext t"
    and "matching_public_key ext (signer iss) (Verifier.publicKey v)"
    and "Issue ext iss rnd t = (s, None)"
  shows "Verifier_Verify ext v s = (Some t, None)"
proof -
  from assms(3) obtain b jws where
    m: "proto_Marshal ext t = Inr b" and
    sg: "Sign ext (signer iss) rnd b = Inr jws" and
    cs: "CompactSerialize ext jws = Inr s"
    by (auto simp add: Issue_def split: sum.splits)
  from assms(1) m have u: "proto_Unmarshal ext b AuthToken_zero = (t, None)"
    by (simp add: valid_token_def)
  from assms(2) sg cs obtain jws' where
    p: "ParseSigned ext s = Inr jws'" and
    vf: "JwsVerify ext jws' (Verifier.publicKey v) = Inr b"
    unfolding matching_public_key_def by blast
  show ?thesis
    by (simp add: Verifier_Verify_def p vf u)
qed

text \<open>The example environment satisfies the hypotheses of the round trip.\<close>

theorem Issue_Verify_round_trip_witness:
  "valid_token ex_extern ex_token
   \<and> matching_public_key ex_extern (signer ex_issuer) (Verifier.publicKey ex_verifier)
   \<and> Issue ex_extern ex_issuer 0 ex_token = (''2aexp 1500'', None)
   \<and> Verifier_Verify ex_extern ex_verifier ''2aexp 1500'' = (Some ex_token, None)"
  using Issue_Verify_round_trip [OF ex_valid_token ex_matching_public_key ex_Issue]
    ex_valid_token ex_matching_public_key ex_Issue
  by simp

section \<open>Expiration\<close>

text \<open>Claim C2 (expiration boundary). With \<open>now\<close> the clock in milliseconds, which is the
  nanosecond clock divided by a million and truncated, a token is judged expired exactly
  when its expiration is less than \<open>now\<close> as signed 64-bit integers: a token with
  \<open>expiration = now\<close> is not expired, and a token with \<open>expiration = now - 1\<close> is.\<close>

theorem TokenExpired_strict_less:
  "(TokenExpired t unixNano \<longleftrightarrow> sint (Expiration t) < sint (nowMillis unixNano))
   \<and> sint (nowMillis unixNano) = sint unixNano sdiv 1000000
   \<and> (Expiration t = nowMillis unixNano \<longrightarrow> \<not> TokenExpired t unixNano)
   \<and> (Expiration t = nowMillis unixNano - 1 \<longrightarrow> TokenExpired t unixNano)"
  by (simp add: TokenExpired_def word_sless_alt sint_nowMillis sint_nowMillis_minus_1)

text \<open>At 1500 ms a token that expires at 1500 is valid and one that expires at 1499 is
  expired.\<close>

theorem TokenExpired_strict_less_witness:
  "nowMillis 1500000000 = 1500
   \<and> \<not> TokenExpired \<lparr>Expiration = 1500, Claims = []\<rparr> 1500000000
   \<and> TokenExpired \<lparr>Expiration = 1499, Claims = []\<rparr> 1500000000"
proof -
  have n: "nowMillis 1500000000 = 1500"
    by (simp add: nowMillis_def int64_quo_def Millisecond_def signed_divide_int_def)
  show ?thesis
    using TokenExpired_strict_less [of "\<lparr>Expiration = 1500, Claims = []\<rparr>" 1500000000]
      TokenExpired_strict_less [of "\<lparr>Expiration = 1499, Claims = []\<rparr>" 1500000000]
    by (simp add: n)
qed

section \<open>The stages of Verify\<close>

text \<open>Claim C3 as stated fails for \<open>Verifier.Verify\<close>: the wire string of a token that
  expires at 1500 ms passes parsing, signature verification and decoding, and the token is
  returned with no error, although at 1501 ms the expiration policy judges it expired.\<close>

theorem Verifier_Verify_returns_expired_token:
  "Verifier_Verify ex_extern ex_verifier ''2aexp 1500'' = (Some ex_token, None)
   \<and> TokenExpired ex_token 1501000000"
  by (simp add: ex_Verifier_Verify ex_TokenExpired_1501)

text \<open>Claim C3, amended. \<open>ecdsaVerifier.Verify\<close> returns a token exactly when parsing,
  signature verification, decoding and, last, the expiration check all pass, and the token
  is the decoded one; when the first three stages pass and the decoded token is expired it
  returns no token and the error ``token has expired''. \<open>Verifier.Verify\<close> has no
  expiration stage: it returns the decoded token exactly when parsing, signature
  verification and decoding pass.\<close>

theorem Verify_stages:
  "(ecdsaVerifier_Verify ext ev now s = (Some t, e) \<longleftrightarrow>
      e = None \<and> (\<exists>jws p. ParseSigned ext s = Inr jws
        \<and> JwsVerify ext jws (ecdsaVerifier.publicKey ev) = Inr p
        \<and> json_Unmarshal ext p AuthToken_zero = (t, None)
        \<and> \<not> TokenExpired t now))
   \<and> (\<forall>jws p. ParseSigned ext s = Inr jws
        \<and> JwsVerify ext jws (ecdsaVerifier.publicKey ev) = Inr p
        \<and> json_Unmarshal ext p AuthToken_zero = (t, None)
        \<and> TokenExpired t now
        \<longrightarrow> ecdsaVerifier_Verify ext ev now s = (None, Some (Errorf ''token has expired'')))
   \<and> (Verifier_Verify ext v s = (Some t, e) \<longleftrightarrow>
      e = None \<and> (\<exists>jws p. ParseSigned ext s = Inr jws
        \<and> JwsVerify ext jws (Verifier.publicKey v) = Inr p
        \<and> proto_Unmarshal ext p AuthToken_zero = (t, None)))"
  by (auto simp add: ecdsaVerifier_Verify_def Verifier_Verify_def split: sum.splits prod.splits if_splits)

text \<open>The same wire string is accepted by \<open>ecdsaVerifier.Verify\<close> at 1500 ms, rejected as
  expired at 1501 ms, and accepted by \<open>Verifier.Verify\<close>.\<close>

theorem Verify_stages_witness:
  "ecdsaVerifier_Verify ex_extern ex_ecdsaVerifier 1500000000 ''2aexp 1500'' = (Some ex_token, None)
   \<and> ecdsaVerifier_Verify ex_extern ex_ecdsaVerifier 1501000000 ''2aexp 1500''
       = (None, Some (Errorf ''token has expired''))
   \<and> Verifier_Verify ex_extern ex_verifier ''2aexp 1500'' = (Some ex_token, None)"
proof -
  have p: "ParseSigned ex_extern ''2aexp 1500''
      = Inr \<lparr>protected_alg = ''ES256'', jws_payload = ''exp 1500'', jws_signature = ''a''\<rparr>"
    by (simp add: ex_defs)
  have v: "JwsVerify ex_extern
      \<lparr>protected_alg = ''ES256'', jws_payload = ''exp 1500'', jws_signature = ''a''\<rparr>
      (ecdsaVerifier.publicKey ex_ecdsaVerifier) = Inr ''exp 1500''"
    by (simp add: ex_defs)
  have v': "JwsVerify ex_extern
      \<lparr>protected_alg = ''ES256'', jws_payload = ''exp 1500'', jws_signature = ''a''\<rparr>
      (Verifier.publicKey ex_verifier) = Inr ''exp 1500''"
    by (simp add: ex_defs)
  have u: "json_Unmarshal ex_extern ''exp 1500'' AuthToken_zero = (ex_token, None)"
    "proto_Unmarshal ex_extern ''exp 1500'' AuthToken_zero = (ex_token, None)"
    by (simp_all add: ex_defs)
  show ?thesis
    using Verify_stages [of ex_extern ex_ecdsaVerifier 1500000000 "''2aexp 1500''" ex_token None
        ex_verifier]
      Verify_stages [of ex_extern ex_ecdsaVerifier 1501000000 "''2aexp 1500''" ex_token None
        ex_verifier]
      p v v' u ex_TokenExpired_1500 ex_TokenExpired_1501
    by auto
qed

text \<open>Claim C10. Whenever \<open>Verify\<close> returns an error, the token it returns is \<open>nil\<close>.\<close>

theorem Verify_error_implies_nil_token:
  "(snd (ecdsaVerifier_Verify ext ev now s) \<noteq> None \<longrightarrow> fst (ecdsaVerifier_Verify ext ev now s) = None)
   \<and> (snd (Verifier_Verify ext v s) \<noteq> None \<longrightarrow> fst (Verifier_Verify ext v s) = None)"
  by (auto simp add: ecdsaVerifier_Verify_def Verifier_Verify_def split: sum.splits prod.splits if_splits)

text \<open>An expired token and a token signed by another key: an error and no token.\<close>

theorem Verify_error_implies_nil_token_witness:
  "ecdsaVerifier_Verify ex_extern ex_ecdsaVerifier 1501000000 ''2aexp 1500''
     = (None, Some (Errorf ''token has expired''))
   \<and> Verifier_Verify ex_extern ex_verifier ''2bexp 1500''
     = (None, Some (External ''square/go-jose: error in cryptographic primitive''))"
proof -
  have e: "snd (ecdsaVerifier_Verify ex_extern ex_ecdsaVerifier 1501000000 ''2aexp 1500'')
      = Some (Errorf ''token has expired'')"
    by (simp add: ecdsaVerifier_Verify_def ex_defs ex_TokenExpired_1501 [unfolded ex_token_def])
  have f: "snd (Verifier_Verify ex_extern ex_verifier ''2bexp 1500'')
      = Some (External ''square/go-jose: error in cryptographic primitive'')"
    by (simp add: Verifier_Verify_def ex_defs)
  show ?thesis
    using Verify_error_implies_nil_token [where ext = ex_extern and ev = ex_ecdsaVerifier
        and now = 1501000000 and s = "''2aexp 1500''" and v = ex_verifier]
      Verify_error_implies_nil_token [where ext = ex_extern and ev = ex_ecdsaVerifier
        and now = 1501000000 and s = "''2bexp 1500''" and v = ex_verifier] e f
    by (simp add: prod_eq_iff)
qed

section \<open>The issuance observer\<close>

text \<open>Claim C4 fails on the code. With an observer configured that reports a failure,
  \<open>Issue\<close> still returns the signed wire string and no error: the call of
  \<open>LogTokenIssued\<close> is commented out in the body of \<open>Issue\<close>.\<close>

theorem Issue_ignores_failing_observer:
  "ex_failing_observer ''2aexp 1500'' ex_token \<noteq> None
   \<and> Issue ex_extern (ex_issuer\<lparr>LogTokenIssued := Some ex_failing_observer\<rparr>) 0 ex_token
       = (''2aexp 1500'', None)"
  by (simp add: Issue_def ex_defs)

section \<open>Loading keys\<close>

text \<open>Claim C6 fails on the code for a key on another curve. The file \<open>b.priv\<close> holds an
  ECDSA key on P-384 and \<open>jose.NewSigner\<close> accepts it; \<open>NewIssuer\<close> assigns the curve
  error, does not return, and the result of \<open>jose.NewSigner\<close> overwrites it: an issuer is
  returned with no error.\<close>

theorem NewIssuer_accepts_P384_key:
  "NewIssuer ex_extern ''b'' ex_files =
     (Some \<lparr>publicKey = \<lparr>Curve = ''P-384'', X = 6, Y = 7\<rparr>,
            signer = Signer ''ES256'' (EcdsaPrivateKey \<lparr>Curve = ''P-384'', X = 6, Y = 7, D = 9\<rparr>),
            LogTokenIssued = None\<rparr>, None)"
  by (simp add: NewIssuer_def ex_defs Params_Name_def curveName_def curveJose_def ES256_def)

text \<open>Claim C7 as stated fails for a key on another curve: the file \<open>b.pub\<close> holds an
  ECDSA public key on P-384, and \<open>NewVerifier\<close> returns a verifier for it.\<close>

theorem NewVerifier_accepts_P384_key:
  "NewVerifier ex_extern ''b'' ex_files =
     (Some \<lparr>publicKey = \<lparr>Curve = ''P-384'', X = 6, Y = 7\<rparr>\<rparr>, None)"
  by (simp add: NewVerifier_def ex_defs)

text \<open>Claim C7, amended. Both \<open>NewVerifier\<close> functions check the type of the decoded
  key and nothing else: a decoded key that is not an ECDSA key gives an error and no
  verifier; a decoded ECDSA key gives a verifier holding it, on whatever curve it is.\<close>

theorem NewVerifier_checks_key_type_only:
  "(ReadFile ext (basename @ ''.pub'') fs = Inr buf \<and> LoadPublicKey ext buf = Inr (OtherPublicKey ty)
      \<longrightarrow> NewVerifier ext basename fs =
            (None, Some (Errorf (''Expected the public key to use ECDSA, but got a key of type '' @ ty))))
   \<and> (ReadFile ext (basename @ ''.pub'') fs = Inr buf \<and> LoadPublicKey ext buf = Inr (EcdsaPublicKey k)
      \<longrightarrow> NewVerifier ext basename fs = (Some \<lparr>publicKey = k\<rparr>, None))
   \<and> (ReadFile ext (gpf dirname) fs = Inr buf \<and> LoadPublicKey ext buf = Inr (OtherPublicKey ty)
      \<longrightarrow> NewVerifier_ecdsa ext gpf dirname fs =
            (None, Some (Errorf (''Expected the public key to use ECDSA, but got a key of type '' @ ty))))
   \<and> (ReadFile ext (gpf dirname) fs = Inr buf \<and> LoadPublicKey ext buf = Inr (EcdsaPublicKey k)
      \<longrightarrow> NewVerifier_ecdsa ext gpf dirname fs = (Some \<lparr>ecdsaVerifier.publicKey = k\<rparr>, None))"
  by (simp add: NewVerifier_def NewVerifier_ecdsa_def)

text \<open>An RSA public key is refused and a P-256 key accepted, by both functions.\<close>

theorem NewVerifier_checks_key_type_only_witness:
  "NewVerifier ex_extern ''r'' ex_files =
     (None, Some (Errorf ''Expected the public key to use ECDSA, but got a key of type *rsa.PublicKey''))
   \<and> NewVerifier ex_extern ''a'' ex_files =
     (Some \<lparr>publicKey = \<lparr>Curve = ''P-256'', X = 4, Y = 5\<rparr>\<rparr>, None)
   \<and> NewVerifier_ecdsa ex_extern ex_getPublicKeyFilename ''r'' ex_files =
     (None, Some (Errorf ''Expected the public key to use ECDSA, but got a key of type *rsa.PublicKey''))
   \<and> NewVerifier_ecdsa ex_extern ex_getPublicKeyFilename ''a'' ex_files =
     (Some \<lparr>ecdsaVerifier.publicKey = \<lparr>Curve = ''P-256'', X = 4, Y = 5\<rparr>\<rparr>, None)"
proof -
  have r: "ReadFile ex_extern (''r'' @ ''.pub'') ex_files = Inr ''pub RSA''"
    "ReadFile ex_extern (ex_getPublicKeyFilename ''r'') ex_files = Inr ''pub RSA''"
    by (simp_all add: ex_defs)
  have a: "ReadFile ex_extern (''a'' @ ''.pub'') ex_files = Inr ''pub P-256 4''"
    "ReadFile ex_extern (ex_getPublicKeyFilename ''a'') ex_files = Inr ''pub P-256 4''"
    by (simp_all add: ex_defs)
  have l: "LoadPublicKey ex_extern ''pub RSA'' = Inr (OtherPublicKey ''*rsa.PublicKey'')"
    "LoadPublicKey ex_extern ''pub P-256 4'' = Inr (EcdsaPublicKey \<lparr>Curve = ''P-256'', X = 4, Y = 5\<rparr>)"
    by (simp_all add: ex_defs)
  show ?thesis
    using NewVerifier_checks_key_type_only [of ex_extern "''r''" ex_files "''pub RSA''"
        "''*rsa.PublicKey''" undefined ex_getPublicKeyFilename "''r''"]
      NewVerifier_checks_key_type_only [of ex_extern "''a''" ex_files "''pub P-256 4''"
        undefined "\<lparr>Curve = ''P-256'', X = 4, Y = 5\<rparr>" ex_getPublicKeyFilename "''a''"]
      r a l
    by simp
qed

section \<open>Generating keys\<close>





end
